theory Spec2Isabelle
  imports Main "HOL-Library.Word"
begin

section \<open>Solana Attestation Service: creating and closing attestations\<close>

text \<open>
  The two processors \<open>process_create_attestation\<close> and \<open>process_close_attestation\<close>
  are embedded step by step from the security reviews of
  \<open>program/src/processor/create_attestation.rs\<close> and
  \<open>program/src/processor/close_attestation.rs\<close>, which list every check of the two
  functions with its line, its error and, for the inline checks, the Rust text.
  Accounts live in a store indexed by their address, so that two account references
  of one instruction may name the same account. A processor that returns an error
  makes the ledger discard every change of the instruction: the model returns the
  error alone, and the new store only on success.
\<close>

subsection \<open>Keys, errors and entities\<close>

type_synonym pubkey = "256 word"
type_synonym u8 = "8 word"
type_synonym u64 = "64 word"
type_synonym i64 = "64 word"

text \<open>\<open>Pubkey::default()\<close>, the all-zero key that stands for "not tokenized".\<close>

definition default_pubkey :: pubkey where
  "default_pubkey = 0"

text \<open>
  \<open>ProgramError\<close> and \<open>AttestationServiceError\<close> as far as the two processors return
  them. \<open>SignerNotAuthorized\<close> is the "custom validation error" of
  \<open>validate_authorized_signer\<close>, \<open>HostError\<close> an error of the ledger's allocator
  or of the event call, \<open>Panicked\<close> an \<open>unwrap\<close> of \<open>None\<close>, and
  \<open>InvalidAuthority\<close> and \<open>DuplicateSigner\<close> belong to the signer-set update.
\<close>

datatype error =
    NotEnoughAccountKeys
  | MissingRequiredSignature
  | IncorrectProgramId
  | InvalidAccountOwner
  | InvalidAccountData
  | InvalidInstructionData
  | SignerNotAuthorized
  | SchemaPaused
  | InvalidCredential
  | InvalidAttestation
  | InvalidAttestationData
  | InvalidTokenAccount
  | InvalidEventAuthority
  | InvalidAuthority
  | DuplicateSigner
  | HostError nat
  | Panicked

record credential =
  authority :: pubkey
  name :: "u8 list"
  authorized_signers :: "pubkey list"

record schema =
  schema_credential :: pubkey
  schema_name :: "u8 list"
  description :: "u8 list"
  layout :: "u8 list"
  field_names :: "u8 list list"
  is_paused :: bool
  version :: u8

record attestation =
  nonce :: pubkey
  att_credential :: pubkey
  att_schema :: pubkey
  data :: "u8 list"
  signer :: pubkey
  expiry :: i64
  token_account :: pubkey

text \<open>
  The contents of an account. The one-byte discriminator that opens every entity is
  the constructor; \<open>NoEntity\<close> is data that deserialises as none of the three.
\<close>

datatype account_contents =
    NoEntity "u8 list"
  | CredentialAccount credential
  | SchemaAccount schema
  | AttestationAccount attestation

record account =
  owner :: pubkey
  lamports :: u64
  contents :: account_contents

type_synonym store = "pubkey \<Rightarrow> account"

text \<open>An \<open>AccountInfo\<close> of the instruction: the address and the two flags of the caller.\<close>

record account_info =
  key :: pubkey
  is_signer :: bool
  is_writable :: bool

record create_args =
  arg_nonce :: pubkey
  arg_data :: "u8 list"
  arg_expiry :: i64

datatype seed = SeedBytes "u8 list" | SeedKey pubkey

datatype event = CloseAttestationEvent pubkey "u8 list"

text \<open>
  What the processors call and the reviews do not show: the ledger (clock, address
  derivation, allocator, the event call), the two constant addresses, the parser of
  the instruction data with its \<open>require_len!\<close> macro, and the layout codec
  \<open>Attestation::validate_data\<close>. They are parameters; every theorem holds for all
  of them.
\<close>

record env =
  system_program_id :: pubkey
  event_authority_id :: pubkey
  unix_timestamp :: i64
  find_program_address :: "seed list \<Rightarrow> pubkey \<Rightarrow> pubkey \<times> u8"
  process_instruction_data :: "u8 list \<Rightarrow> error + create_args"
  validate_data :: "u8 list \<Rightarrow> u8 list \<Rightarrow> bool"
  create_pda_account :: "store \<Rightarrow> pubkey \<Rightarrow> nat \<Rightarrow> pubkey \<Rightarrow> pubkey \<Rightarrow> error + store"
  invoke_signed :: "event \<Rightarrow> error + unit"

text \<open>The \<open>?\<close> operator: the first error ends the function.\<close>

definition and_then :: "error + 'a \<Rightarrow> ('a \<Rightarrow> error + 'b) \<Rightarrow> error + 'b" where
  "and_then r f = (case r of Inl e \<Rightarrow> Inl e | Inr x \<Rightarrow> f x)"

subsection \<open>The shared checks\<close>

text \<open>
  \<open>verify_signer(info, writable)\<close>: \<open>MissingRequiredSignature\<close> unless the account
  signed; the flag asks for a writable account as in \<open>verify_owner_mutability\<close>
  (both processors pass \<open>false\<close>).
\<close>

definition verify_signer :: "account_info \<Rightarrow> bool \<Rightarrow> error + unit" where
  "verify_signer info writable =
     (if \<not> is_signer info then Inl MissingRequiredSignature
      else if writable \<and> \<not> is_writable info then Inl InvalidAccountData
      else Inr ())"

text \<open>\<open>system_program.key() == pinocchio_system::ID\<close>.\<close>

definition verify_system_program :: "env \<Rightarrow> account_info \<Rightarrow> error + unit" where
  "verify_system_program e info =
     (if key info \<noteq> system_program_id e then Inl IncorrectProgramId else Inr ())"

text \<open>\<open>attestation_program.key() == program_id\<close>.\<close>

definition verify_current_program :: "account_info \<Rightarrow> pubkey \<Rightarrow> error + unit" where
  "verify_current_program info program_id =
     (if key info \<noteq> program_id then Inl IncorrectProgramId else Inr ())"

text \<open>
  \<open>verify_owner_mutability(info, program_id, writable)\<close>: \<open>InvalidAccountOwner\<close>
  unless the program owns the account, \<open>InvalidAccountData\<close> unless it is writable
  when that is asked for.
\<close>

definition verify_owner_mutability ::
  "store \<Rightarrow> account_info \<Rightarrow> pubkey \<Rightarrow> bool \<Rightarrow> error + unit" where
  "verify_owner_mutability st info program_id writable =
     (if owner (st (key info)) \<noteq> program_id then Inl InvalidAccountOwner
      else if writable \<and> \<not> is_writable info then Inl InvalidAccountData
      else Inr ())"

text \<open>\<open>try_from_bytes\<close> of the three entities: the discriminator must be the entity's.\<close>

definition credential_try_from_bytes :: "account_contents \<Rightarrow> error + credential" where
  "credential_try_from_bytes d =
     (case d of CredentialAccount c \<Rightarrow> Inr c | _ \<Rightarrow> Inl InvalidAccountData)"

definition schema_try_from_bytes :: "account_contents \<Rightarrow> error + schema" where
  "schema_try_from_bytes d =
     (case d of SchemaAccount s \<Rightarrow> Inr s | _ \<Rightarrow> Inl InvalidAccountData)"

definition attestation_try_from_bytes :: "account_contents \<Rightarrow> error + attestation" where
  "attestation_try_from_bytes d =
     (case d of AttestationAccount a \<Rightarrow> Inr a | _ \<Rightarrow> Inl InvalidAccountData)"

text \<open>
  \<open>credential.validate_authorized_signer(signer)\<close>: the signer is in the credential's
  list of authorized signers.
\<close>

definition validate_authorized_signer :: "credential \<Rightarrow> pubkey \<Rightarrow> error + unit" where
  "validate_authorized_signer c s =
     (if s \<in> set (authorized_signers c) then Inr () else Inl SignerNotAuthorized)"

text \<open>Rust's \<open>u64::checked_add\<close>.\<close>

definition checked_add :: "u64 \<Rightarrow> u64 \<Rightarrow> u64 option" where
  "checked_add a b = (if unat a + unat b < 2 ^ 64 then Some (a + b) else None)"

subsection \<open>CloseAttestation\<close>

text \<open>
  Check 10 of the close review (lines 56-62): a supplied token account must be the
  stored one; with none supplied the stored one must be the default key.
\<close>

definition check_token_account :: "pubkey option \<Rightarrow> attestation \<Rightarrow> error + unit" where
  "check_token_account supplied a =
     (case supplied of
        Some t \<Rightarrow> if token_account a \<noteq> t then Inl InvalidTokenAccount else Inr ()
      | None \<Rightarrow>
          if token_account a \<noteq> default_pubkey then Inl InvalidTokenAccount else Inr ())"

text \<open>
  \<open>AccountInfo::close()\<close>: the account keeps no data, no balance and no owner.
\<close>

definition close_account :: "store \<Rightarrow> pubkey \<Rightarrow> store" where
  "close_account st k =
     st(k := \<lparr>owner = default_pubkey, lamports = 0, contents = NoEntity []\<rparr>)"

text \<open>
  Check 12 (lines 70-75):
  \<^verbatim>\<open>
  let payer_lamports = payer_info.lamports();
  *payer_info.try_borrow_mut_lamports().unwrap() = payer_lamports
      .checked_add(attestation_info.lamports()).unwrap();
  *attestation_info.try_borrow_mut_lamports().unwrap() = 0;
  attestation_info.close()?;
  \<close>
  The two writes go to the store in this order, so the second one wins when both
  references name one account.
\<close>

definition transfer_and_close :: "store \<Rightarrow> pubkey \<Rightarrow> pubkey \<Rightarrow> error + store" where
  "transfer_and_close st payer att =
     (let payer_lamports = lamports (st payer) in
      case checked_add payer_lamports (lamports (st att)) of
        None \<Rightarrow> Inl Panicked
      | Some credited \<Rightarrow>
          (let st1 = st(payer := (st payer)\<lparr>lamports := credited\<rparr>);
               st2 = st1(att := (st1 att)\<lparr>lamports := 0\<rparr>)
           in Inr (close_account st2 att)))"

definition process_close_attestation ::
  "env \<Rightarrow> pubkey \<Rightarrow> store \<Rightarrow> account_info list \<Rightarrow> pubkey option \<Rightarrow>
   error + (store \<times> event list)" where
  "process_close_attestation e program_id st accounts supplied_token =
     (case accounts of
        [payer_info, authorized_signer, credential_info, attestation_info,
         event_authority_info, system_program, attestation_program] \<Rightarrow>
          and_then (verify_signer authorized_signer False) (\<lambda>_.
          and_then (verify_system_program e system_program) (\<lambda>_.
          and_then (verify_current_program attestation_program program_id) (\<lambda>_.
          and_then (verify_owner_mutability st credential_info program_id False) (\<lambda>_.
          and_then (verify_owner_mutability st attestation_info program_id True) (\<lambda>_.
          and_then (credential_try_from_bytes (contents (st (key credential_info)))) (\<lambda>c.
          and_then (validate_authorized_signer c (key authorized_signer)) (\<lambda>_.
          and_then (attestation_try_from_bytes (contents (st (key attestation_info)))) (\<lambda>a.
          and_then (check_token_account supplied_token a) (\<lambda>_.
          if att_credential a \<noteq> key credential_info then Inl InvalidCredential
          else
          and_then (transfer_and_close st (key payer_info) (key attestation_info)) (\<lambda>st'.
          if key event_authority_info \<noteq> event_authority_id e then Inl InvalidEventAuthority
          else
          and_then (invoke_signed e (CloseAttestationEvent (att_schema a) (data a))) (\<lambda>_.
          Inr (st', [CloseAttestationEvent (att_schema a) (data a)]))))))))))))
      | _ \<Rightarrow> Inl NotEnoughAccountKeys)"

subsection \<open>CreateAttestation\<close>

text \<open>\<open>ATTESTATION_SEED\<close>, the bytes of "attestation".\<close>

definition ATTESTATION_SEED :: "u8 list" where
  "ATTESTATION_SEED = [97, 116, 116, 101, 115, 116, 97, 116, 105, 111, 110]"

text \<open>
  Check 12 of the create review (lines 63-66):
  \<^verbatim>\<open>if args.expiry < clock.unix_timestamp && args.expiry != 0 { return Err(..) }\<close>
  on signed 64-bit values.
\<close>

definition expiry_rejected :: "i64 \<Rightarrow> i64 \<Rightarrow> bool" where
  "expiry_rejected ex now \<longleftrightarrow> ex <s now \<and> ex \<noteq> 0"

text \<open>
  Check 14 (line 97):
  \<^verbatim>\<open>let space = 1 + 32 + 32 + 32 + (4 + args.data.len()) + 32 + 8 + 32;\<close>
\<close>

definition attestation_space :: "u8 list \<Rightarrow> nat" where
  "attestation_space d = 1 + 32 + 32 + 32 + (4 + length d) + 32 + 8 + 32"

definition process_create_attestation ::
  "env \<Rightarrow> pubkey \<Rightarrow> store \<Rightarrow> account_info list \<Rightarrow> u8 list \<Rightarrow> pubkey option \<Rightarrow>
   error + store" where
  "process_create_attestation e program_id st accounts instruction_data supplied_token =
     and_then (process_instruction_data e instruction_data) (\<lambda>args.
     case accounts of
       [payer_info, authorized_signer, credential_info, schema_info, attestation_info,
        system_program] \<Rightarrow>
         and_then (verify_signer authorized_signer False) (\<lambda>_.
         and_then (verify_system_program e system_program) (\<lambda>_.
         and_then (verify_owner_mutability st credential_info program_id False) (\<lambda>_.
         and_then (verify_owner_mutability st schema_info program_id False) (\<lambda>_.
         and_then (credential_try_from_bytes (contents (st (key credential_info)))) (\<lambda>c.
         and_then (validate_authorized_signer c (key authorized_signer)) (\<lambda>_.
         and_then (schema_try_from_bytes (contents (st (key schema_info)))) (\<lambda>s.
         if is_paused s then Inl SchemaPaused
         else if schema_credential s \<noteq> key credential_info then Inl InvalidCredential
         else if expiry_rejected (arg_expiry args) (unix_timestamp e)
           then Inl InvalidAttestationData
         else
           (let (attestation_pda, bump) =
                  find_program_address e
                    [SeedBytes ATTESTATION_SEED, SeedKey (key credential_info),
                     SeedKey (key schema_info), SeedKey (arg_nonce args)] program_id
            in
            if key attestation_info \<noteq> attestation_pda then Inl InvalidAttestation
            else
              (let space = attestation_space (arg_data args) in
               and_then (create_pda_account e st (key payer_info) space program_id
                           (key attestation_info)) (\<lambda>st1.
               (let a = \<lparr>nonce = arg_nonce args,
                         att_credential = key credential_info,
                         att_schema = key schema_info,
                         data = arg_data args,
                         signer = key authorized_signer,
                         expiry = arg_expiry args,
                         token_account =
                           (case supplied_token of None \<Rightarrow> default_pubkey | Some t \<Rightarrow> t)\<rparr>
                in
                if \<not> validate_data e (layout s) (data a) then Inl InvalidAttestationData
                else
                  Inr (st1(key attestation_info :=
                         (st1 (key attestation_info))
                           \<lparr>contents := AttestationAccount a\<rparr>)))))))))))))
     | _ \<Rightarrow> Inl NotEnoughAccountKeys)"

subsection \<open>ChangeAuthorizedSigners\<close>

text \<open>
  Modelled from the spec: the processor of ChangeAuthorizedSigners, which is not among
  the reviewed functions. The spec has it "authority-only; replaces the credential's
  signer set wholesale with a new ordered set (duplicates rejected, empty set
  permitted)"; signature, ownership and mutability are checked as in the other
  processors.
\<close>

definition process_change_authorized_signers ::
  "pubkey \<Rightarrow> store \<Rightarrow> account_info \<Rightarrow> account_info \<Rightarrow> pubkey list \<Rightarrow> error + store" where
  "process_change_authorized_signers program_id st authority_info credential_info signers =
     and_then (verify_signer authority_info False) (\<lambda>_.
     and_then (verify_owner_mutability st credential_info program_id True) (\<lambda>_.
     and_then (credential_try_from_bytes (contents (st (key credential_info)))) (\<lambda>c.
     if authority c \<noteq> key authority_info then Inl InvalidAuthority
     else if \<not> distinct signers then Inl DuplicateSigner
     else
       Inr (st(key credential_info :=
              (st (key credential_info))
                \<lparr>contents := CredentialAccount (c\<lparr>authorized_signers := signers\<rparr>)\<rparr>)))))"

subsection \<open>A small ledger to run the processors on\<close>

text \<open>
  One instance of the parameters, used where a theorem is applied to a concrete
  invocation. The parser follows the wire format of the create review (nonce of 32
  bytes, \<open>u32\<close> length, data, \<open>i64\<close> expiry, little-endian), the codec knows the type
  codes 0 (\<open>u8\<close>) and 12 (string) of the demo layout, the allocator takes a rent of 10
  lamports from the payer and refuses an address that is in use, and an attestation
  address is its nonce plus 10.
\<close>

definition be_key :: "u8 list \<Rightarrow> pubkey" where
  "be_key bytes = foldl (\<lambda>acc b. acc * 256 + ucast b) 0 bytes"

definition le_u32 :: "u8 list \<Rightarrow> nat" where
  "le_u32 bytes = foldr (\<lambda>b acc. unat b + 256 * acc) bytes 0"

definition le_i64 :: "u8 list \<Rightarrow> i64" where
  "le_i64 bytes = foldr (\<lambda>b acc. ucast b + 256 * acc) bytes 0"

definition parse_args :: "u8 list \<Rightarrow> error + create_args" where
  "parse_args bytes =
     (if length bytes < 36 then Inl InvalidInstructionData
      else
        (let n = le_u32 (take 4 (drop 32 bytes)) in
         if length bytes \<noteq> 36 + n + 8 then Inl InvalidInstructionData
         else Inr \<lparr>arg_nonce = be_key (take 32 bytes),
                   arg_data = take n (drop 36 bytes),
                   arg_expiry = le_i64 (drop (36 + n) bytes)\<rparr>))"

fun conforms :: "u8 list \<Rightarrow> u8 list \<Rightarrow> bool" where
  "conforms [] d = (d = [])"
| "conforms (t # ts) d =
     (if t = 0 then (case d of [] \<Rightarrow> False | _ # d' \<Rightarrow> conforms ts d')
      else if t = 12 then
        4 \<le> length d \<and> 4 + le_u32 (take 4 d) \<le> length d \<and>
        conforms ts (drop (4 + le_u32 (take 4 d)) d)
      else False)"

definition derive0 :: "seed list \<Rightarrow> pubkey \<Rightarrow> pubkey \<times> u8" where
  "derive0 seeds program_id =
     (case seeds of [_, _, _, SeedKey n] \<Rightarrow> (n + 10, 255) | _ \<Rightarrow> (0, 255))"

definition allocate0 :: "store \<Rightarrow> pubkey \<Rightarrow> nat \<Rightarrow> pubkey \<Rightarrow> pubkey \<Rightarrow> error + store" where
  "allocate0 st payer space own target =
     (if lamports (st target) \<noteq> 0 then Inl (HostError 0)
      else if lamports (st payer) < 10 then Inl (HostError 1)
      else Inr (st(payer := (st payer)\<lparr>lamports := lamports (st payer) - 10\<rparr>,
                   target := \<lparr>owner = own, lamports = 10,
                              contents = NoEntity (replicate space 0)\<rparr>)))"

definition env0 :: "i64 \<Rightarrow> env" where
  "env0 now =
     \<lparr>system_program_id = 0, event_authority_id = 6, unix_timestamp = now,
      find_program_address = derive0,
      process_instruction_data = parse_args,
      validate_data = conforms,
      create_pda_account = allocate0,
      invoke_signed = (\<lambda>ev. Inr ())\<rparr>"

definition pid0 :: pubkey where
  "pid0 = 100"

definition info :: "pubkey \<Rightarrow> bool \<Rightarrow> bool \<Rightarrow> account_info" where
  "info k sg wr = \<lparr>key = k, is_signer = sg, is_writable = wr\<rparr>"

definition credential0 :: "pubkey list \<Rightarrow> credential" where
  "credential0 signers = \<lparr>authority = 7, name = [79, 82, 71], authorized_signers = signers\<rparr>"

definition schema0 :: "bool \<Rightarrow> schema" where
  "schema0 paused =
     \<lparr>schema_credential = 3, schema_name = [83], description = [], layout = [12, 0],
      field_names = [[110], [97]], is_paused = paused, version = 1\<rparr>"

definition attestation0 :: "pubkey \<Rightarrow> attestation" where
  "attestation0 token =
     \<lparr>nonce = 8, att_credential = 3, att_schema = 4, data = [1, 0, 0, 0, 97, 30],
      signer = 2, expiry = 500, token_account = token\<rparr>"

definition no_account :: account where
  "no_account = \<lparr>owner = 0, lamports = 0, contents = NoEntity []\<rparr>"

text \<open>
  The ledger: a payer at 1 with the given balance, the credential at 3 with the given
  signers, the schema at 4, paused or not, and an attestation of expiry 500 at the
  given address with the given token account.
\<close>

definition ledger0 :: "u64 \<Rightarrow> pubkey list \<Rightarrow> bool \<Rightarrow> pubkey \<Rightarrow> pubkey \<Rightarrow> store" where
  "ledger0 balance signers paused att_key token =
     (\<lambda>_. no_account)
       (1 := \<lparr>owner = 0, lamports = balance, contents = NoEntity []\<rparr>,
        3 := \<lparr>owner = 100, lamports = 50,
               contents = CredentialAccount (credential0 signers)\<rparr>,
        4 := \<lparr>owner = 100, lamports = 60, contents = SchemaAccount (schema0 paused)\<rparr>,
        att_key := \<lparr>owner = 100, lamports = 70,
                     contents = AttestationAccount (attestation0 token)\<rparr>)"

definition create_accounts0 :: "pubkey \<Rightarrow> pubkey \<Rightarrow> account_info list" where
  "create_accounts0 sg att_key =
     [info 1 True True, info sg True False, info 3 False False, info 4 False False,
      info att_key False True, info 0 False False]"

definition close_accounts0 :: "pubkey \<Rightarrow> pubkey \<Rightarrow> pubkey \<Rightarrow> account_info list" where
  "close_accounts0 payer sg att_key =
     [info payer True True, info sg True False, info 3 False False,
      info att_key False True, info 6 False False, info 0 False False,
      info 100 False False]"

text \<open>
  Instruction data of CreateAttestation: the nonce \<open>n\<close>, six bytes of data (the string
  "a" and the byte 30) and the expiry \<open>x\<close>; and the same with six bytes that are no
  string followed by a byte, for the nonce 9 and the expiry 0.
\<close>

definition idata0 :: "u8 \<Rightarrow> u8 \<Rightarrow> u8 list" where
  "idata0 n x =
     [0, 0, 0, 0, 0, 0, 0, 0, 0, 0, 0, 0, 0, 0, 0, 0,
      0, 0, 0, 0, 0, 0, 0, 0, 0, 0, 0, 0, 0, 0, 0, n,
      6, 0, 0, 0,
      1, 0, 0, 0, 97, 30,
      x, 0, 0, 0, 0, 0, 0, 0]"

definition idata_bad :: "u8 list" where
  "idata_bad =
     [0, 0, 0, 0, 0, 0, 0, 0, 0, 0, 0, 0, 0, 0, 0, 0,
      0, 0, 0, 0, 0, 0, 0, 0, 0, 0, 0, 0, 0, 0, 0, 9,
      6, 0, 0, 0,
      1, 2, 3, 4, 5, 6,
      0, 0, 0, 0, 0, 0, 0, 0]"

section \<open>Properties\<close>

subsection \<open>Reading the processors\<close>

lemmas scenario_defs = be_key_def le_u32_def le_i64_def parse_args_def derive0_def
  allocate0_def env0_def pid0_def info_def credential0_def schema0_def attestation0_def
  no_account_def ledger0_def create_accounts0_def close_accounts0_def idata0_def
  idata_bad_def

lemmas processor_defs = process_close_attestation_def process_create_attestation_def
  process_change_authorized_signers_def verify_signer_def verify_system_program_def
  verify_current_program_def verify_owner_mutability_def credential_try_from_bytes_def
  schema_try_from_bytes_def attestation_try_from_bytes_def validate_authorized_signer_def
  check_token_account_def transfer_and_close_def close_account_def checked_add_def
  default_pubkey_def expiry_rejected_def attestation_space_def ATTESTATION_SEED_def
  word_sless_alt

lemma and_then_Inr_iff: "and_then r f = Inr y \<longleftrightarrow> (\<exists>x. r = Inr x \<and> f x = Inr y)"
  by (cases r) (simp_all add: and_then_def)

lemma and_then_Inl [simp]: "and_then (Inl e) f = Inl e"
  by (simp add: and_then_def)

lemma and_then_Inr [simp]: "and_then (Inr x) f = f x"
  by (simp add: and_then_def)

lemma isl_iff_not_Inr: "isl r \<longleftrightarrow> (\<forall>x. r \<noteq> Inr x)"
  by (cases r) simp_all

lemma not_isl_if_Inr: "r = Inr y \<Longrightarrow> \<not> isl r"
  by simp

lemma verify_signer_Inr [simp]: "verify_signer i False = Inr u \<longleftrightarrow> is_signer i"
  by (simp add: verify_signer_def)

lemma verify_system_program_Inr [simp]:
  "verify_system_program e i = Inr u \<longleftrightarrow> key i = system_program_id e"
  by (simp add: verify_system_program_def)

lemma verify_current_program_Inr [simp]:
  "verify_current_program i pid = Inr u \<longleftrightarrow> key i = pid"
  by (simp add: verify_current_program_def)

lemma verify_owner_mutability_Inr [simp]:
  "verify_owner_mutability st i pid w = Inr u \<longleftrightarrow>
   owner (st (key i)) = pid \<and> (w \<longrightarrow> is_writable i)"
  by (simp add: verify_owner_mutability_def)

lemma credential_try_from_bytes_Inr [simp]:
  "credential_try_from_bytes d = Inr c \<longleftrightarrow> d = CredentialAccount c"
  by (cases d) (auto simp: credential_try_from_bytes_def)

lemma schema_try_from_bytes_Inr [simp]:
  "schema_try_from_bytes d = Inr s \<longleftrightarrow> d = SchemaAccount s"
  by (cases d) (auto simp: schema_try_from_bytes_def)

lemma attestation_try_from_bytes_Inr [simp]:
  "attestation_try_from_bytes d = Inr a \<longleftrightarrow> d = AttestationAccount a"
  by (cases d) (auto simp: attestation_try_from_bytes_def)

lemma validate_authorized_signer_Inr [simp]:
  "validate_authorized_signer c s = Inr u \<longleftrightarrow> s \<in> set (authorized_signers c)"
  by (simp add: validate_authorized_signer_def)

lemma check_token_account_Inr:
  "check_token_account tok a = Inr u \<longleftrightarrow>
   tok = Some (token_account a) \<or> (tok = None \<and> token_account a = default_pubkey)"
  by (auto simp: check_token_account_def split: option.splits)

text \<open>The transfer goes through exactly when the sum fits 64 bits.\<close>

lemma transfer_and_close_Inr_iff:
  "transfer_and_close st p a = Inr st' \<longleftrightarrow>
   unat (lamports (st p)) + unat (lamports (st a)) < 2 ^ 64 \<and>
   st' = close_account
           ((st(p := (st p)\<lparr>lamports := lamports (st p) + lamports (st a)\<rparr>))
              (a := ((st(p := (st p)\<lparr>lamports := lamports (st p) + lamports (st a)\<rparr>)) a)
                      \<lparr>lamports := 0\<rparr>)) a"
  by (auto simp: transfer_and_close_def checked_add_def Let_def)

lemma transfer_and_close_overflow:
  "2 ^ 64 \<le> unat (lamports (st p)) + unat (lamports (st a)) \<Longrightarrow>
   transfer_and_close st p a = Inl Panicked"
  by (simp add: transfer_and_close_def checked_add_def)

lemma transfer_and_close_balances:
  assumes "transfer_and_close st p a = Inr st'"
  shows "lamports (st' a) = 0"
    and "contents (st' a) = NoEntity []"
    and "p \<noteq> a \<Longrightarrow> unat (lamports (st' p)) = unat (lamports (st p)) + unat (lamports (st a))"
proof -
  from assms have fits: "unat (lamports (st p)) + unat (lamports (st a)) < 2 ^ 64"
    and st': "st' = close_account
           ((st(p := (st p)\<lparr>lamports := lamports (st p) + lamports (st a)\<rparr>))
              (a := ((st(p := (st p)\<lparr>lamports := lamports (st p) + lamports (st a)\<rparr>)) a)
                      \<lparr>lamports := 0\<rparr>)) a"
    by (simp_all add: transfer_and_close_Inr_iff)
  show "lamports (st' a) = 0" and "contents (st' a) = NoEntity []"
    by (simp_all add: st' close_account_def)
  assume "p \<noteq> a"
  then have "lamports (st' p) = lamports (st p) + lamports (st a)"
    by (simp add: st' close_account_def)
  moreover have "unat (lamports (st p) + lamports (st a)) =
      unat (lamports (st p)) + unat (lamports (st a))"
    using fits by (simp add: unat_word_ariths)
  ultimately show "unat (lamports (st' p)) = unat (lamports (st p)) + unat (lamports (st a))"
    by simp
qed

text \<open>
  A close succeeds exactly when its list has seven accounts and every check of the
  review passes; the result is the store after the transfer and the one event.
\<close>

lemma close_list:
  "process_close_attestation e pid st accounts tok = Inr r \<Longrightarrow>
   \<exists>p s c a ev sp ap. accounts = [p, s, c, a, ev, sp, ap]"
  by (auto simp: process_close_attestation_def split: list.splits)

lemma close_Inr_iff:
  "process_close_attestation e pid st [p, s, c, a, ev, sp, ap] tok = Inr r \<longleftrightarrow>
   (\<exists>cr at st'.
      is_signer s \<and> key sp = system_program_id e \<and> key ap = pid \<and>
      owner (st (key c)) = pid \<and> owner (st (key a)) = pid \<and> is_writable a \<and>
      contents (st (key c)) = CredentialAccount cr \<and>
      key s \<in> set (authorized_signers cr) \<and>
      contents (st (key a)) = AttestationAccount at \<and>
      check_token_account tok at = Inr () \<and>
      att_credential at = key c \<and>
      transfer_and_close st (key p) (key a) = Inr st' \<and>
      key ev = event_authority_id e \<and>
      invoke_signed e (CloseAttestationEvent (att_schema at) (data at)) = Inr () \<and>
      r = (st', [CloseAttestationEvent (att_schema at) (data at)]))"
  unfolding process_close_attestation_def
  by (auto simp: and_then_Inr_iff split: if_splits)

text \<open>The same for a creation, with its six accounts.\<close>

lemma create_list:
  "process_create_attestation e pid st accounts idata tok = Inr r \<Longrightarrow>
   \<exists>p s c sc a sp. accounts = [p, s, c, sc, a, sp]"
  by (auto simp: process_create_attestation_def and_then_def
           split: sum.split_asm list.split_asm)

lemma create_Inr_iff:
  "process_create_attestation e pid st [p, s, c, sc, a, sp] idata tok = Inr r \<longleftrightarrow>
   (\<exists>args cr sch st1.
      process_instruction_data e idata = Inr args \<and>
      is_signer s \<and> key sp = system_program_id e \<and>
      owner (st (key c)) = pid \<and> owner (st (key sc)) = pid \<and>
      contents (st (key c)) = CredentialAccount cr \<and>
      key s \<in> set (authorized_signers cr) \<and>
      contents (st (key sc)) = SchemaAccount sch \<and>
      \<not> is_paused sch \<and> schema_credential sch = key c \<and>
      \<not> expiry_rejected (arg_expiry args) (unix_timestamp e) \<and>
      key a = fst (find_program_address e
                [SeedBytes ATTESTATION_SEED, SeedKey (key c), SeedKey (key sc),
                 SeedKey (arg_nonce args)] pid) \<and>
      create_pda_account e st (key p) (attestation_space (arg_data args)) pid (key a) = Inr st1 \<and>
      validate_data e (layout sch) (arg_data args) \<and>
      r = st1(key a := (st1 (key a))\<lparr>contents := AttestationAccount
            \<lparr>nonce = arg_nonce args, att_credential = key c, att_schema = key sc,
             data = arg_data args, signer = key s, expiry = arg_expiry args,
             token_account = (case tok of None \<Rightarrow> default_pubkey | Some t \<Rightarrow> t)\<rparr>\<rparr>))"
  unfolding process_create_attestation_def
  by (auto simp: and_then_Inr_iff Let_def case_prod_beta split: if_splits)

text \<open>What a successful signer-set update leaves behind.\<close>

lemma change_Inr:
  "process_change_authorized_signers pid st au c signers = Inr st' \<Longrightarrow>
   \<exists>cr. contents (st (key c)) = CredentialAccount cr \<and> owner (st (key c)) = pid \<and>
        st' = st(key c := (st (key c))
                 \<lparr>contents := CredentialAccount (cr\<lparr>authorized_signers := signers\<rparr>)\<rparr>)"
  unfolding process_change_authorized_signers_def
  by (auto simp: and_then_Inr_iff split: if_splits)



lemma expiry_accepted_iff: "\<not> expiry_rejected ex now \<longleftrightarrow> ex = 0 \<or> now \<le>s ex"
  by (auto simp: expiry_rejected_def word_sless_alt word_sle_eq)

text \<open>
  Once the instruction data is parsed and the checks up to the two deserialisations
  have passed, a creation is decided by the schema, the clock, the derived address,
  the allocator and the codec, in this order.
\<close>

lemma create_after_authorization:
  assumes "process_instruction_data e idata = Inr args"
    and "is_signer s" and "key sp = system_program_id e"
    and "owner (st (key c)) = pid" and "owner (st (key sc)) = pid"
    and "contents (st (key c)) = CredentialAccount cr"
    and "key s \<in> set (authorized_signers cr)"
    and "contents (st (key sc)) = SchemaAccount sch"
  shows "process_create_attestation e pid st [p, s, c, sc, a, sp] idata tok =
     (if is_paused sch then Inl SchemaPaused
      else if schema_credential sch \<noteq> key c then Inl InvalidCredential
      else if expiry_rejected (arg_expiry args) (unix_timestamp e)
        then Inl InvalidAttestationData
      else if key a \<noteq> fst (find_program_address e
                [SeedBytes ATTESTATION_SEED, SeedKey (key c), SeedKey (key sc),
                 SeedKey (arg_nonce args)] pid) then Inl InvalidAttestation
      else
        (case create_pda_account e st (key p) (attestation_space (arg_data args)) pid (key a) of
           Inl x \<Rightarrow> Inl x
         | Inr st1 \<Rightarrow>
             if \<not> validate_data e (layout sch) (arg_data args) then Inl InvalidAttestationData
             else Inr (st1(key a := (st1 (key a))\<lparr>contents := AttestationAccount
                    \<lparr>nonce = arg_nonce args, att_credential = key c, att_schema = key sc,
                     data = arg_data args, signer = key s, expiry = arg_expiry args,
                     token_account =
                       (case tok of None \<Rightarrow> default_pubkey | Some t \<Rightarrow> t)\<rparr>\<rparr>))))"
  using assms
  by (simp add: process_create_attestation_def verify_signer_def verify_system_program_def
        verify_owner_mutability_def credential_try_from_bytes_def schema_try_from_bytes_def
        validate_authorized_signer_def Let_def case_prod_beta and_then_def
      split: sum.splits)

text \<open>
  A creation that succeeds with one expiry passes, with any other expiry, every check
  but the one on the expiry.
\<close>

lemma create_other_expiry:
  assumes first: "process_instruction_data e idata = Inr args"
    and other: "process_instruction_data e idata' = Inr (args\<lparr>arg_expiry := x\<rparr>)"
    and ok: "process_create_attestation e pid st accounts idata tok = Inr st2"
  shows "(expiry_rejected x (unix_timestamp e) \<longrightarrow>
            process_create_attestation e pid st accounts idata' tok = Inl InvalidAttestationData) \<and>
         (\<not> expiry_rejected x (unix_timestamp e) \<longrightarrow>
            \<not> isl (process_create_attestation e pid st accounts idata' tok))"
proof -
  from create_list [OF ok] obtain p s c sc a sp where acc: "accounts = [p, s, c, sc, a, sp]"
    by blast
  from ok [unfolded acc create_Inr_iff] first obtain cr sch st1 where
    f: "is_signer s" "key sp = system_program_id e" "owner (st (key c)) = pid"
       "owner (st (key sc)) = pid" "contents (st (key c)) = CredentialAccount cr"
       "key s \<in> set (authorized_signers cr)" "contents (st (key sc)) = SchemaAccount sch"
    and g: "\<not> is_paused sch" "schema_credential sch = key c"
       "key a = fst (find_program_address e
                [SeedBytes ATTESTATION_SEED, SeedKey (key c), SeedKey (key sc),
                 SeedKey (arg_nonce args)] pid)"
       "create_pda_account e st (key p) (attestation_space (arg_data args)) pid (key a) = Inr st1"
       "validate_data e (layout sch) (arg_data args)"
    by auto
  show ?thesis
    unfolding acc create_after_authorization [OF other f]
    using g by simp
qed

subsection \<open>Closing: neither pause nor expiry\<close>

text \<open>
  C10 (as amended). CloseAttestation takes no schema account and reads neither a
  paused flag, nor the attestation's expiry, nor the clock. For every attestation,
  also one that has expired or whose schema is paused, the close succeeds whenever
  the checks of its pipeline pass: the signature, the system-program and
  attestation-program identities, ownership of credential and attestation,
  writability of the attestation, the two discriminators, membership of the signer,
  token consistency, the credential binding, a balance sum that fits 64 bits, the
  event authority, and an event call that is accepted. The result does not depend on
  the clock.
\<close>

theorem close_ignores_pause_and_expiry:
  assumes "is_signer s"
    and "key sp = system_program_id e" and "key ap = pid"
    and "owner (st (key c)) = pid" and "owner (st (key a)) = pid" and "is_writable a"
    and "contents (st (key c)) = CredentialAccount cr"
    and "key s \<in> set (authorized_signers cr)"
    and "contents (st (key a)) = AttestationAccount at"
    and "tok = Some (token_account at) \<or> (tok = None \<and> token_account at = default_pubkey)"
    and "att_credential at = key c"
    and "unat (lamports (st (key p))) + unat (lamports (st (key a))) < 2 ^ 64"
    and "key ev = event_authority_id e"
    and "invoke_signed e (CloseAttestationEvent (att_schema at) (data at)) = Inr ()"
  shows "\<not> isl (process_close_attestation e pid st [p, s, c, a, ev, sp, ap] tok) \<and>
         process_close_attestation (e\<lparr>unix_timestamp := t\<rparr>) pid st [p, s, c, a, ev, sp, ap] tok =
           process_close_attestation e pid st [p, s, c, a, ev, sp, ap] tok"
proof
  have "\<exists>st'. transfer_and_close st (key p) (key a) = Inr st'"
    using assms(12) by (simp add: transfer_and_close_Inr_iff)
  then have "\<exists>r. process_close_attestation e pid st [p, s, c, a, ev, sp, ap] tok = Inr r"
    using assms by (auto simp: close_Inr_iff check_token_account_Inr)
  then show "\<not> isl (process_close_attestation e pid st [p, s, c, a, ev, sp, ap] tok)"
    by auto
  show "process_close_attestation (e\<lparr>unix_timestamp := t\<rparr>) pid st [p, s, c, a, ev, sp, ap] tok =
      process_close_attestation e pid st [p, s, c, a, ev, sp, ap] tok"
    by (simp add: process_close_attestation_def verify_system_program_def cong: if_cong)
qed

text \<open>
  On the small ledger at time 1000: the attestation at 18 expired at 500, the schema
  at 4 is paused, and the close succeeds.
\<close>

theorem close_ignores_pause_and_expiry_witness:
  "expiry (attestation0 0) <s unix_timestamp (env0 1000) \<and> expiry (attestation0 0) \<noteq> 0 \<and>
   contents (ledger0 1000 [2] True 18 0 4) = SchemaAccount (schema0 True) \<and>
   is_paused (schema0 True) \<and>
   \<not> isl (process_close_attestation (env0 1000) pid0 (ledger0 1000 [2] True 18 0)
       (close_accounts0 1 2 18) None)"
proof -
  let ?st = "ledger0 1000 [2] True 18 0"
  have h: "is_signer (info 2 True False)"
    "key (info 0 False False) = system_program_id (env0 1000)"
    "key (info 100 False False) = pid0"
    "owner (?st (key (info 3 False False))) = pid0"
    "owner (?st (key (info 18 False True))) = pid0"
    "is_writable (info 18 False True)"
    "contents (?st (key (info 3 False False))) = CredentialAccount (credential0 [2])"
    "key (info 2 True False) \<in> set (authorized_signers (credential0 [2]))"
    "contents (?st (key (info 18 False True))) = AttestationAccount (attestation0 0)"
    "None = Some (token_account (attestation0 0)) \<or>
       (None = (None :: pubkey option) \<and> token_account (attestation0 0) = default_pubkey)"
    "att_credential (attestation0 0) = key (info 3 False False)"
    "unat (lamports (?st (key (info 1 True True)))) +
       unat (lamports (?st (key (info 18 False True)))) < 2 ^ 64"
    "key (info 6 False False) = event_authority_id (env0 1000)"
    "invoke_signed (env0 1000)
       (CloseAttestationEvent (att_schema (attestation0 0)) (data (attestation0 0))) = Inr ()"
    by (simp_all add: scenario_defs default_pubkey_def)
  from close_ignores_pause_and_expiry [OF h, of 0]
  have "\<not> isl (process_close_attestation (env0 1000) pid0 ?st (close_accounts0 1 2 18) None)"
    by (simp add: close_accounts0_def)
  moreover have "expiry (attestation0 0) <s unix_timestamp (env0 1000) \<and>
      expiry (attestation0 0) \<noteq> 0 \<and>
      contents (?st 4) = SchemaAccount (schema0 True) \<and> is_paused (schema0 True)"
    by (simp add: scenario_defs word_sless_alt)
  ultimately show ?thesis by simp
qed

text \<open>
  The claim as stated names six checks as sufficient. They are not: here the signer
  signed and is a member, credential and attestation are owned by the program, the
  token reference is consistent, the attestation is bound to the credential and the
  event authority is the right one, and the close fails, because the payer's balance
  would overflow.
\<close>

theorem close_listed_checks_counterexample:
  "is_signer (info 2 True False) \<and>
   2 \<in> set (authorized_signers (credential0 [2])) \<and>
   contents (ledger0 18446744073709551615 [2] False 18 0 3) =
     CredentialAccount (credential0 [2]) \<and>
   owner (ledger0 18446744073709551615 [2] False 18 0 3) = pid0 \<and>
   owner (ledger0 18446744073709551615 [2] False 18 0 18) = pid0 \<and>
   contents (ledger0 18446744073709551615 [2] False 18 0 18) =
     AttestationAccount (attestation0 0) \<and>
   check_token_account None (attestation0 0) = Inr () \<and>
   att_credential (attestation0 0) = 3 \<and>
   event_authority_id (env0 1000) = 6 \<and>
   close_accounts0 1 2 18 =
     [info 1 True True, info 2 True False, info 3 False False, info 18 False True,
      info 6 False False, info 0 False False, info 100 False False] \<and>
   isl (process_close_attestation (env0 1000) pid0
       (ledger0 18446744073709551615 [2] False 18 0) (close_accounts0 1 2 18) None)"
  by (simp add: scenario_defs processor_defs)

subsection \<open>Signature and membership\<close>

text \<open>
  C1. CreateAttestation and CloseAttestation ask for both a signature of the supplied
  signer account and its membership in the credential's list of authorized signers.
  A creation or a close that succeeds had a signer that signed and is in the list;
  an invocation whose signer did not sign fails, member or not; an invocation whose
  signer is not in the list fails, signed or not. After ChangeAuthorizedSigners has
  put a signer that signed into the list, the same invocation succeeds, its other
  checks passing: for a creation the instruction data, the system program, the schema
  (owned, not paused, bound to the credential), the expiry, the derived address, the
  allocator and the codec; for a close the two program identities, the attestation
  (owned, writable, bound to the credential, token consistent), the balance sum, the
  event authority and the event call.
\<close>

theorem dual_authority:
  "(process_create_attestation e pid st [p, s, c, sc, a, sp] idata tok = Inr created \<longrightarrow>
      is_signer s \<and>
      (\<exists>cr. contents (st (key c)) = CredentialAccount cr \<and>
            key s \<in> set (authorized_signers cr))) \<and>
   (process_close_attestation e pid st [p', s, c, a', ev, sp', ap] tok' = Inr closed \<longrightarrow>
      is_signer s \<and>
      (\<exists>cr. contents (st (key c)) = CredentialAccount cr \<and>
            key s \<in> set (authorized_signers cr))) \<and>
   (\<not> is_signer s \<longrightarrow>
      isl (process_create_attestation e pid st [p, s, c, sc, a, sp] idata tok) \<and>
      isl (process_close_attestation e pid st [p', s, c, a', ev, sp', ap] tok')) \<and>
   (contents (st (key c)) = CredentialAccount cr \<and> key s \<notin> set (authorized_signers cr) \<longrightarrow>
      isl (process_create_attestation e pid st [p, s, c, sc, a, sp] idata tok) \<and>
      isl (process_close_attestation e pid st [p', s, c, a', ev, sp', ap] tok')) \<and>
   (is_signer s \<and>
    process_change_authorized_signers pid st au c' signers = Inr st' \<and>
    key c' = key c \<and> key s \<in> set signers \<and>
    process_instruction_data e idata = Inr args \<and>
    key sp = system_program_id e \<and> owner (st (key sc)) = pid \<and>
    contents (st (key sc)) = SchemaAccount sch \<and> \<not> is_paused sch \<and>
    schema_credential sch = key c \<and>
    \<not> expiry_rejected (arg_expiry args) (unix_timestamp e) \<and>
    key a = fst (find_program_address e
              [SeedBytes ATTESTATION_SEED, SeedKey (key c), SeedKey (key sc),
               SeedKey (arg_nonce args)] pid) \<and>
    create_pda_account e st' (key p) (attestation_space (arg_data args)) pid (key a) =
      Inr allocated \<and>
    validate_data e (layout sch) (arg_data args) \<longrightarrow>
    \<not> isl (process_create_attestation e pid st' [p, s, c, sc, a, sp] idata tok)) \<and>
   (is_signer s \<and>
    process_change_authorized_signers pid st au c' signers = Inr st' \<and>
    key c' = key c \<and> key s \<in> set signers \<and>
    key sp' = system_program_id e \<and> key ap = pid \<and>
    owner (st (key a')) = pid \<and> is_writable a' \<and>
    contents (st (key a')) = AttestationAccount at \<and>
    check_token_account tok' at = Inr () \<and> att_credential at = key c \<and>
    unat (lamports (st (key p'))) + unat (lamports (st (key a'))) < 2 ^ 64 \<and>
    key ev = event_authority_id e \<and>
    invoke_signed e (CloseAttestationEvent (att_schema at) (data at)) = Inr () \<longrightarrow>
    \<not> isl (process_close_attestation e pid st' [p', s, c, a', ev, sp', ap] tok'))"
proof (intro conjI impI)
  assume "process_create_attestation e pid st [p, s, c, sc, a, sp] idata tok = Inr created"
  then show "is_signer s"
    and "\<exists>cr. contents (st (key c)) = CredentialAccount cr \<and>
            key s \<in> set (authorized_signers cr)"
    by (auto simp: create_Inr_iff)
next
  assume "process_close_attestation e pid st [p', s, c, a', ev, sp', ap] tok' = Inr closed"
  then show "is_signer s"
    and "\<exists>cr. contents (st (key c)) = CredentialAccount cr \<and>
            key s \<in> set (authorized_signers cr)"
    by (auto simp: close_Inr_iff)
next
  assume unsigned: "\<not> is_signer s"
  then show "isl (process_create_attestation e pid st [p, s, c, sc, a, sp] idata tok)"
    by (auto simp: isl_iff_not_Inr create_Inr_iff)
  from unsigned
  show "isl (process_close_attestation e pid st [p', s, c, a', ev, sp', ap] tok')"
    by (auto simp: isl_iff_not_Inr close_Inr_iff)
next
  assume outsider: "contents (st (key c)) = CredentialAccount cr \<and>
      key s \<notin> set (authorized_signers cr)"
  then show "isl (process_create_attestation e pid st [p, s, c, sc, a, sp] idata tok)"
    by (auto simp: isl_iff_not_Inr create_Inr_iff)
  from outsider
  show "isl (process_close_attestation e pid st [p', s, c, a', ev, sp', ap] tok')"
    by (auto simp: isl_iff_not_Inr close_Inr_iff)
next
  assume h: "is_signer s \<and>
    process_change_authorized_signers pid st au c' signers = Inr st' \<and>
    key c' = key c \<and> key s \<in> set signers \<and>
    process_instruction_data e idata = Inr args \<and>
    key sp = system_program_id e \<and> owner (st (key sc)) = pid \<and>
    contents (st (key sc)) = SchemaAccount sch \<and> \<not> is_paused sch \<and>
    schema_credential sch = key c \<and>
    \<not> expiry_rejected (arg_expiry args) (unix_timestamp e) \<and>
    key a = fst (find_program_address e
              [SeedBytes ATTESTATION_SEED, SeedKey (key c), SeedKey (key sc),
               SeedKey (arg_nonce args)] pid) \<and>
    create_pda_account e st' (key p) (attestation_space (arg_data args)) pid (key a) =
      Inr allocated \<and>
    validate_data e (layout sch) (arg_data args)"
  then have signed: "is_signer s"
    and change: "process_change_authorized_signers pid st au c' signers = Inr st'"
    and same: "key c' = key c" by simp_all
  from change_Inr [OF change] same obtain old where
    cred: "contents (st (key c)) = CredentialAccount old"
    and own: "owner (st (key c)) = pid"
    and st': "st' = st(key c := (st (key c))
                 \<lparr>contents := CredentialAccount (old\<lparr>authorized_signers := signers\<rparr>)\<rparr>)"
    by auto
  from h cred have other: "key sc \<noteq> key c" by auto
  have "\<exists>r. process_create_attestation e pid st' [p, s, c, sc, a, sp] idata tok = Inr r"
    unfolding create_Inr_iff
    using h signed own other by (auto simp: st')
  then show "\<not> isl (process_create_attestation e pid st' [p, s, c, sc, a, sp] idata tok)"
    by auto
next
  assume h: "is_signer s \<and>
    process_change_authorized_signers pid st au c' signers = Inr st' \<and>
    key c' = key c \<and> key s \<in> set signers \<and>
    key sp' = system_program_id e \<and> key ap = pid \<and>
    owner (st (key a')) = pid \<and> is_writable a' \<and>
    contents (st (key a')) = AttestationAccount at \<and>
    check_token_account tok' at = Inr () \<and> att_credential at = key c \<and>
    unat (lamports (st (key p'))) + unat (lamports (st (key a'))) < 2 ^ 64 \<and>
    key ev = event_authority_id e \<and>
    invoke_signed e (CloseAttestationEvent (att_schema at) (data at)) = Inr ()"
  then have signed: "is_signer s"
    and change: "process_change_authorized_signers pid st au c' signers = Inr st'"
    and same: "key c' = key c" by simp_all
  from change_Inr [OF change] same obtain old where
    cred: "contents (st (key c)) = CredentialAccount old"
    and own: "owner (st (key c)) = pid"
    and st': "st' = st(key c := (st (key c))
                 \<lparr>contents := CredentialAccount (old\<lparr>authorized_signers := signers\<rparr>)\<rparr>)"
    by auto
  from h cred have other: "key a' \<noteq> key c" by auto
  have bal: "lamports (st' (key p')) = lamports (st (key p'))"
    "lamports (st' (key a')) = lamports (st (key a'))"
    by (simp_all add: st')
  have "\<exists>x. transfer_and_close st' (key p') (key a') = Inr x"
    using h by (simp add: transfer_and_close_Inr_iff bal)
  then have "\<exists>r. process_close_attestation e pid st' [p', s, c, a', ev, sp', ap] tok' = Inr r"
    unfolding close_Inr_iff
    using h signed own other by (auto simp: st')
  then show "\<not> isl (process_close_attestation e pid st' [p', s, c, a', ev, sp', ap] tok')"
    by auto
qed

text \<open>
  On the small ledger, whose credential lists the signer 2 only: a creation and a
  close whose signer account 2 did not sign fail; a creation and a close signed by 9
  fail; the authority 7 replaces the list by 2 and 9, and both succeed.
\<close>

theorem dual_authority_witness:
  "isl (process_create_attestation (env0 100) pid0 (ledger0 1000 [2] False 18 0)
       [info 1 True True, info 2 False False, info 3 False False, info 4 False False,
        info 19 False True, info 0 False False] (idata0 9 0) None) \<and>
   isl (process_close_attestation (env0 100) pid0 (ledger0 1000 [2] False 18 0)
       [info 1 True True, info 2 False False, info 3 False False, info 18 False True,
        info 6 False False, info 0 False False, info 100 False False] None) \<and>
   isl (process_create_attestation (env0 100) pid0 (ledger0 1000 [2] False 18 0)
       (create_accounts0 9 19) (idata0 9 0) None) \<and>
   isl (process_close_attestation (env0 100) pid0 (ledger0 1000 [2] False 18 0)
       (close_accounts0 1 9 18) None) \<and>
   process_change_authorized_signers pid0 (ledger0 1000 [2] False 18 0)
       (info 7 True False) (info 3 False True) [2, 9] = Inr (ledger0 1000 [2, 9] False 18 0) \<and>
   \<not> isl (process_create_attestation (env0 100) pid0 (ledger0 1000 [2, 9] False 18 0)
       (create_accounts0 9 19) (idata0 9 0) None) \<and>
   \<not> isl (process_close_attestation (env0 100) pid0 (ledger0 1000 [2, 9] False 18 0)
       (close_accounts0 1 9 18) None)"
proof -
  let ?st = "ledger0 1000 [2] False 18 0"
  let ?st' = "ledger0 1000 [2, 9] False 18 0"
  let ?args = "\<lparr>arg_nonce = 9, arg_data = [1, 0, 0, 0, 97, 30], arg_expiry = 0\<rparr>"
  have unsigned: "\<not> is_signer (info 2 False False)"
    by (simp add: info_def)
  have outsider: "contents (?st (key (info 3 False False))) = CredentialAccount (credential0 [2]) \<and>
      key (info 9 True False) \<notin> set (authorized_signers (credential0 [2]))"
    by (simp add: scenario_defs)
  have signed: "is_signer (info 9 True False)"
    by (simp add: info_def)
  have change: "process_change_authorized_signers pid0 ?st
       (info 7 True False) (info 3 False True) [2, 9] = Inr ?st'"
    by (simp add: scenario_defs processor_defs fun_eq_iff)
  have create_rest: "key (info 3 False True) = key (info 3 False False) \<and>
      key (info 9 True False) \<in> set [2, 9] \<and>
      process_instruction_data (env0 100) (idata0 9 0) = Inr ?args \<and>
      key (info 0 False False) = system_program_id (env0 100) \<and>
      owner (?st (key (info 4 False False))) = pid0 \<and>
      contents (?st (key (info 4 False False))) = SchemaAccount (schema0 False) \<and>
      \<not> is_paused (schema0 False) \<and>
      schema_credential (schema0 False) = key (info 3 False False) \<and>
      \<not> expiry_rejected (arg_expiry ?args) (unix_timestamp (env0 100)) \<and>
      key (info 19 False True) = fst (find_program_address (env0 100)
          [SeedBytes ATTESTATION_SEED, SeedKey (key (info 3 False False)),
           SeedKey (key (info 4 False False)), SeedKey (arg_nonce ?args)] pid0) \<and>
      create_pda_account (env0 100) ?st' (key (info 1 True True))
          (attestation_space (arg_data ?args)) pid0 (key (info 19 False True)) =
        Inr (projr (allocate0 ?st' 1 179 pid0 19)) \<and>
      validate_data (env0 100) (layout (schema0 False)) (arg_data ?args)"
    by (simp add: scenario_defs expiry_rejected_def attestation_space_def)
  have close_rest: "key (info 3 False True) = key (info 3 False False) \<and>
      key (info 9 True False) \<in> set [2, 9] \<and>
      key (info 0 False False) = system_program_id (env0 100) \<and>
      key (info 100 False False) = pid0 \<and>
      owner (?st (key (info 18 False True))) = pid0 \<and> is_writable (info 18 False True) \<and>
      contents (?st (key (info 18 False True))) = AttestationAccount (attestation0 0) \<and>
      check_token_account None (attestation0 0) = Inr () \<and>
      att_credential (attestation0 0) = key (info 3 False False) \<and>
      unat (lamports (?st (key (info 1 True True)))) +
        unat (lamports (?st (key (info 18 False True)))) < 2 ^ 64 \<and>
      key (info 6 False False) = event_authority_id (env0 100) \<and>
      invoke_signed (env0 100)
        (CloseAttestationEvent (att_schema (attestation0 0)) (data (attestation0 0))) = Inr ()"
    by (simp add: scenario_defs check_token_account_def default_pubkey_def)
  note absent = dual_authority [where s = "info 2 False False" and st = ?st
      and c = "info 3 False False" and e = "env0 100"
      and pid = pid0 and p = "info 1 True True" and sc = "info 4 False False"
      and a = "info 19 False True" and sp = "info 0 False False" and idata = "idata0 9 0"
      and tok = None and p' = "info 1 True True" and a' = "info 18 False True"
      and ev = "info 6 False False" and sp' = "info 0 False False"
      and ap = "info 100 False False" and tok' = None]
  note main = dual_authority [where s = "info 9 True False" and st = ?st
      and c = "info 3 False False" and cr = "credential0 [2]" and e = "env0 100"
      and pid = pid0 and p = "info 1 True True" and sc = "info 4 False False"
      and a = "info 19 False True" and sp = "info 0 False False" and idata = "idata0 9 0"
      and tok = None and p' = "info 1 True True" and a' = "info 18 False True"
      and ev = "info 6 False False" and sp' = "info 0 False False"
      and ap = "info 100 False False" and tok' = None and au = "info 7 True False"
      and c' = "info 3 False True" and signers = "[2, 9]" and st' = ?st'
      and args = ?args and sch = "schema0 False"
      and allocated = "projr (allocate0 ?st' 1 179 pid0 19)" and at = "attestation0 0"]
  from absent unsigned
  have one: "isl (process_create_attestation (env0 100) pid0 ?st
       [info 1 True True, info 2 False False, info 3 False False, info 4 False False,
        info 19 False True, info 0 False False] (idata0 9 0) None) \<and>
     isl (process_close_attestation (env0 100) pid0 ?st
       [info 1 True True, info 2 False False, info 3 False False, info 18 False True,
        info 6 False False, info 0 False False, info 100 False False] None)"
    by blast
  from main outsider
  have two: "isl (process_create_attestation (env0 100) pid0 ?st
       [info 1 True True, info 9 True False, info 3 False False, info 4 False False,
        info 19 False True, info 0 False False] (idata0 9 0) None) \<and>
     isl (process_close_attestation (env0 100) pid0 ?st
       [info 1 True True, info 9 True False, info 3 False False, info 18 False True,
        info 6 False False, info 0 False False, info 100 False False] None)"
    by blast
  from main signed change create_rest
  have three: "\<not> isl (process_create_attestation (env0 100) pid0 ?st'
       [info 1 True True, info 9 True False, info 3 False False, info 4 False False,
        info 19 False True, info 0 False False] (idata0 9 0) None)"
    by blast
  from main signed change close_rest
  have four: "\<not> isl (process_close_attestation (env0 100) pid0 ?st'
       [info 1 True True, info 9 True False, info 3 False False, info 18 False True,
        info 6 False False, info 0 False False, info 100 False False] None)"
    by blast
  show ?thesis
    unfolding create_accounts0_def close_accounts0_def
    using one two three four change by blast
qed

subsection \<open>The expiry of a new attestation\<close>

text \<open>
  C4 (as amended). For a CreateAttestation invocation that is otherwise admissible
  (it succeeds with some expiry), the accepted expiry values are exactly 0 and the
  values not before the current time: the invocation with expiry \<open>x\<close> succeeds if and
  only if \<open>x = 0\<close> or \<open>current_time \<le> x\<close>, and every other \<open>x\<close>, that is every non-zero
  \<open>x < current_time\<close>, is rejected with \<open>InvalidAttestationData\<close>. An expiry equal to
  the current time is accepted.
\<close>

theorem create_expiry_accepted:
  assumes "process_instruction_data e idata = Inr args"
    and "process_instruction_data e idata' = Inr (args\<lparr>arg_expiry := x\<rparr>)"
    and "process_create_attestation e pid st accounts idata tok = Inr st2"
  shows "(\<not> isl (process_create_attestation e pid st accounts idata' tok) \<longleftrightarrow>
            x = 0 \<or> unix_timestamp e \<le>s x) \<and>
         (x \<noteq> 0 \<and> x <s unix_timestamp e \<longrightarrow>
            process_create_attestation e pid st accounts idata' tok = Inl InvalidAttestationData)"
proof -
  note both = create_other_expiry [OF assms]
  show ?thesis
  proof (cases "expiry_rejected x (unix_timestamp e)")
    case True
    with both have "process_create_attestation e pid st accounts idata' tok =
        Inl InvalidAttestationData" by blast
    moreover from True have "\<not> (x = 0 \<or> unix_timestamp e \<le>s x)"
      by (simp add: expiry_accepted_iff [symmetric])
    ultimately show ?thesis by simp
  next
    case False
    with both have "\<not> isl (process_create_attestation e pid st accounts idata' tok)"
      by blast
    moreover from False have "x = 0 \<or> unix_timestamp e \<le>s x"
      by (simp add: expiry_accepted_iff)
    moreover from False have "\<not> (x \<noteq> 0 \<and> x <s unix_timestamp e)"
      by (auto simp: expiry_rejected_def)
    ultimately show ?thesis by blast
  qed
qed

text \<open>
  The theorem at work on the small ledger, at time 100: the invocation succeeds with
  expiry 0; with expiry 200 it succeeds and with expiry 50 it is rejected.
\<close>

theorem create_expiry_accepted_witness:
  "\<not> isl (process_create_attestation (env0 100) pid0 (ledger0 1000 [2] False 18 0)
            (create_accounts0 2 19) (idata0 9 200) None) \<and>
   process_create_attestation (env0 100) pid0 (ledger0 1000 [2] False 18 0)
     (create_accounts0 2 19) (idata0 9 50) None = Inl InvalidAttestationData"
proof -
  let ?args = "\<lparr>arg_nonce = 9, arg_data = [1, 0, 0, 0, 97, 30], arg_expiry = 0\<rparr>"
  let ?st = "ledger0 1000 [2] False 18 0"
  have p0: "process_instruction_data (env0 100) (idata0 9 0) = Inr ?args"
    by (simp add: scenario_defs)
  have p1: "process_instruction_data (env0 100) (idata0 9 200) = Inr (?args\<lparr>arg_expiry := 200\<rparr>)"
    by (simp add: scenario_defs)
  have p2: "process_instruction_data (env0 100) (idata0 9 50) = Inr (?args\<lparr>arg_expiry := 50\<rparr>)"
    by (simp add: scenario_defs)
  have ok: "process_create_attestation (env0 100) pid0 ?st (create_accounts0 2 19)
              (idata0 9 0) None =
            Inr (projr (process_create_attestation (env0 100) pid0 ?st (create_accounts0 2 19)
              (idata0 9 0) None))"
    by (simp add: scenario_defs processor_defs)
  from create_expiry_accepted [OF p0 p1 ok] create_expiry_accepted [OF p0 p2 ok]
  show ?thesis
    by (simp add: scenario_defs word_sle_eq word_sless_alt)
qed

text \<open>
  The claim as stated fails where the expiry equals the current time: at time 100 an
  attestation with expiry 100 is created.
\<close>

theorem create_expiry_tie_counterexample:
  "unix_timestamp (env0 100) = 100 \<and>
   process_instruction_data (env0 100) (idata0 9 100) =
     Inr \<lparr>arg_nonce = 9, arg_data = [1, 0, 0, 0, 97, 30], arg_expiry = 100\<rparr> \<and>
   \<not> isl (process_create_attestation (env0 100) pid0 (ledger0 1000 [2] False 18 0)
            (create_accounts0 2 19) (idata0 9 100) None)"
  by (simp add: scenario_defs processor_defs)




subsection \<open>A paused schema\<close>

text \<open>
  C6 (as amended). A CreateAttestation invocation against a schema whose \<open>is_paused\<close>
  flag is set fails, so no attestation is created and a creation succeeds only
  against a schema that is not paused. The error is \<open>SchemaPaused\<close> when the checks
  before the pause check pass (instruction data, signature, system program, ownership
  of credential and schema, credential discriminator, membership of the signer).
\<close>

theorem create_paused_schema:
  assumes "contents (st (key sc)) = SchemaAccount sch" and "is_paused sch"
  shows "isl (process_create_attestation e pid st [p, s, c, sc, a, sp] idata tok) \<and>
         (process_instruction_data e idata = Inr args \<and> is_signer s \<and>
          key sp = system_program_id e \<and> owner (st (key c)) = pid \<and>
          owner (st (key sc)) = pid \<and> contents (st (key c)) = CredentialAccount cr \<and>
          key s \<in> set (authorized_signers cr) \<longrightarrow>
          process_create_attestation e pid st [p, s, c, sc, a, sp] idata tok = Inl SchemaPaused)"
proof (intro conjI impI)
  show "isl (process_create_attestation e pid st [p, s, c, sc, a, sp] idata tok)"
    using assms by (auto simp: isl_iff_not_Inr create_Inr_iff)
next
  assume "process_instruction_data e idata = Inr args \<and> is_signer s \<and>
          key sp = system_program_id e \<and> owner (st (key c)) = pid \<and>
          owner (st (key sc)) = pid \<and> contents (st (key c)) = CredentialAccount cr \<and>
          key s \<in> set (authorized_signers cr)"
  then show "process_create_attestation e pid st [p, s, c, sc, a, sp] idata tok = Inl SchemaPaused"
    using assms by (simp add: create_after_authorization [where cr = cr and sch = sch])
qed

theorem create_paused_schema_witness:
  "process_create_attestation (env0 100) pid0 (ledger0 1000 [2] True 18 0)
     (create_accounts0 2 19) (idata0 9 0) None = Inl SchemaPaused"
proof -
  have h1: "contents (ledger0 1000 [2] True 18 0 (key (info 4 False False))) =
      SchemaAccount (schema0 True)"
    by (simp add: scenario_defs)
  have h2: "is_paused (schema0 True)"
    by (simp add: schema0_def)
  from create_paused_schema [where st = "ledger0 1000 [2] True 18 0"
      and sc = "info 4 False False" and sch = "schema0 True" and e = "env0 100"
      and pid = pid0 and p = "info 1 True True" and s = "info 2 True False"
      and c = "info 3 False False" and a = "info 19 False True"
      and sp = "info 0 False False" and idata = "idata0 9 0" and tok = None
      and args = "\<lparr>arg_nonce = 9, arg_data = [1, 0, 0, 0, 97, 30], arg_expiry = 0\<rparr>"
      and cr = "credential0 [2]", OF h1 h2]
  show ?thesis
    by (simp add: scenario_defs)
qed

text \<open>
  The claim as stated gives the schema-paused error to every invocation against a
  paused schema. Here the schema at 4 is paused and the signer account 2 did not
  sign: the creation fails on the signature check, which comes first.
\<close>

theorem create_paused_error_counterexample:
  "contents (ledger0 1000 [2] True 18 0 4) = SchemaAccount (schema0 True) \<and>
   is_paused (schema0 True) \<and>
   process_create_attestation (env0 100) pid0 (ledger0 1000 [2] True 18 0)
     [info 1 True True, info 2 False False, info 3 False False, info 4 False False,
      info 19 False True, info 0 False False] (idata0 9 0) None =
     Inl MissingRequiredSignature"
  by (simp add: scenario_defs processor_defs)

subsection \<open>The address of the attestation account\<close>

text \<open>
  C7 (as amended). In CreateAttestation the supplied attestation account's address
  must equal the address derived from the seeds \<open>attestation\<close>, credential key,
  schema key and nonce: any other address is rejected. The credential and schema
  accounts of a creation are not re-derived; a creation that succeeds has found them
  owned by the program, of the right kind, and the schema bound to the credential.
\<close>

theorem create_attestation_address:
  assumes "process_instruction_data e idata = Inr args"
  shows "(key a \<noteq> fst (find_program_address e
                     [SeedBytes ATTESTATION_SEED, SeedKey (key c), SeedKey (key sc),
                      SeedKey (arg_nonce args)] pid) \<longrightarrow>
            isl (process_create_attestation e pid st [p, s, c, sc, a, sp] idata tok)) \<and>
         (process_create_attestation e pid st [p, s, c, sc, a, sp] idata tok = Inr created \<longrightarrow>
            key a = fst (find_program_address e
                     [SeedBytes ATTESTATION_SEED, SeedKey (key c), SeedKey (key sc),
                      SeedKey (arg_nonce args)] pid) \<and>
            owner (st (key c)) = pid \<and> owner (st (key sc)) = pid \<and>
            (\<exists>cr sch. contents (st (key c)) = CredentialAccount cr \<and>
                      contents (st (key sc)) = SchemaAccount sch \<and>
                      schema_credential sch = key c))"
  using assms by (auto simp: isl_iff_not_Inr create_Inr_iff)

text \<open>
  On the small ledger the nonce 9 derives to the address 19: a creation that supplies
  the account 20 fails, and the one that supplies 19 succeeds.
\<close>

theorem create_attestation_address_witness:
  "isl (process_create_attestation (env0 100) pid0 (ledger0 1000 [2] False 18 0)
       (create_accounts0 2 20) (idata0 9 0) None) \<and>
   \<not> isl (process_create_attestation (env0 100) pid0 (ledger0 1000 [2] False 18 0)
       (create_accounts0 2 19) (idata0 9 0) None) \<and>
   fst (find_program_address (env0 100)
         [SeedBytes ATTESTATION_SEED, SeedKey 3, SeedKey 4, SeedKey 9] pid0) = 19"
proof -
  let ?args = "\<lparr>arg_nonce = 9, arg_data = [1, 0, 0, 0, 97, 30], arg_expiry = 0\<rparr>"
  let ?st = "ledger0 1000 [2] False 18 0"
  let ?r = "process_create_attestation (env0 100) pid0 ?st (create_accounts0 2 19)
              (idata0 9 0) None"
  have parsed: "process_instruction_data (env0 100) (idata0 9 0) = Inr ?args"
    by (simp add: scenario_defs)
  have wrong: "key (info 20 False True) \<noteq> fst (find_program_address (env0 100)
       [SeedBytes ATTESTATION_SEED, SeedKey (key (info 3 False False)),
        SeedKey (key (info 4 False False)), SeedKey (arg_nonce ?args)] pid0)"
    by (simp add: scenario_defs)
  have ok: "process_create_attestation (env0 100) pid0 ?st
       [info 1 True True, info 2 True False, info 3 False False, info 4 False False,
        info 19 False True, info 0 False False] (idata0 9 0) None = Inr (projr ?r)"
    by (simp add: scenario_defs processor_defs)
  from create_attestation_address [OF parsed, where a = "info 20 False True"
      and c = "info 3 False False" and sc = "info 4 False False" and pid = pid0
      and st = ?st and p = "info 1 True True" and s = "info 2 True False"
      and sp = "info 0 False False" and tok = None] wrong
  have "isl (process_create_attestation (env0 100) pid0 ?st (create_accounts0 2 20)
          (idata0 9 0) None)"
    by (simp add: create_accounts0_def)
  moreover
  from create_attestation_address [OF parsed, where a = "info 19 False True"
      and c = "info 3 False False" and sc = "info 4 False False" and pid = pid0
      and st = ?st and p = "info 1 True True" and s = "info 2 True False"
      and sp = "info 0 False False" and tok = None and created = "projr ?r"] ok
  have "key (info 19 False True) = fst (find_program_address (env0 100)
       [SeedBytes ATTESTATION_SEED, SeedKey (key (info 3 False False)),
        SeedKey (key (info 4 False False)), SeedKey (arg_nonce ?args)] pid0)"
    by blast
  then have "fst (find_program_address (env0 100)
         [SeedBytes ATTESTATION_SEED, SeedKey 3, SeedKey 4, SeedKey 9] pid0) = 19"
    by (simp add: info_def)
  moreover from ok have "\<not> isl ?r"
    unfolding create_accounts0_def by (rule not_isl_if_Inr)
  ultimately show ?thesis by blast
qed

text \<open>
  The claim as stated fails for CloseAttestation, which derives no address: an
  attestation account that sits at the address 5, while its credential, schema and
  nonce derive to 18, is accepted and closed.
\<close>

theorem close_address_counterexample:
  "contents (ledger0 1000 [2] False 5 0 5) = AttestationAccount (attestation0 0) \<and>
   fst (find_program_address (env0 1000)
         [SeedBytes ATTESTATION_SEED, SeedKey (att_credential (attestation0 0)),
          SeedKey (att_schema (attestation0 0)), SeedKey (nonce (attestation0 0))] pid0) = 18 \<and>
   \<not> isl (process_close_attestation (env0 1000) pid0 (ledger0 1000 [2] False 5 0)
       (close_accounts0 1 2 5) None)"
  by (simp add: scenario_defs processor_defs)

subsection \<open>The order of the last steps of a creation\<close>

text \<open>
  C9 (as amended). Once the authorization checks, the pause check, the binding check
  and the expiry check have passed, CreateAttestation goes on in this order: it
  derives the attestation address from (credential, schema, nonce) and rejects any
  other supplied address; it computes the storage size
  \<open>1 + 32 + 32 + 32 + (4 + len) + 32 + 8 + 32\<close>; it has the storage allocated, and an
  allocator error ends the operation whatever the data; only then it validates the
  data against the schema layout, and invalid data end the operation with
  \<open>InvalidAttestationData\<close>; at last it writes the full record (nonce, credential,
  schema, data, signer, expiry, token account or default) in one step. No error
  return carries a state.
\<close>

theorem create_step_order:
  assumes "process_instruction_data e idata = Inr args"
    and "is_signer s" and "key sp = system_program_id e"
    and "owner (st (key c)) = pid" and "owner (st (key sc)) = pid"
    and "contents (st (key c)) = CredentialAccount cr"
    and "key s \<in> set (authorized_signers cr)"
    and "contents (st (key sc)) = SchemaAccount sch"
    and "\<not> is_paused sch" and "schema_credential sch = key c"
    and "\<not> expiry_rejected (arg_expiry args) (unix_timestamp e)"
    and "pda = fst (find_program_address e
                 [SeedBytes ATTESTATION_SEED, SeedKey (key c), SeedKey (key sc),
                  SeedKey (arg_nonce args)] pid)"
    and "allocation = create_pda_account e st (key p)
                 (1 + 32 + 32 + 32 + (4 + length (arg_data args)) + 32 + 8 + 32) pid (key a)"
  shows "(key a \<noteq> pda \<longrightarrow>
            process_create_attestation e pid st [p, s, c, sc, a, sp] idata tok =
              Inl InvalidAttestation) \<and>
         (key a = pda \<and> allocation = Inl x \<longrightarrow>
            process_create_attestation e pid st [p, s, c, sc, a, sp] idata tok = Inl x) \<and>
         (key a = pda \<and> allocation = Inr allocated \<and>
          \<not> validate_data e (layout sch) (arg_data args) \<longrightarrow>
            process_create_attestation e pid st [p, s, c, sc, a, sp] idata tok =
              Inl InvalidAttestationData) \<and>
         (key a = pda \<and> allocation = Inr allocated \<and>
          validate_data e (layout sch) (arg_data args) \<longrightarrow>
            process_create_attestation e pid st [p, s, c, sc, a, sp] idata tok =
              Inr (allocated(key a := (allocated (key a))\<lparr>contents := AttestationAccount
                    \<lparr>nonce = arg_nonce args, att_credential = key c, att_schema = key sc,
                     data = arg_data args, signer = key s, expiry = arg_expiry args,
                     token_account =
                       (case tok of None \<Rightarrow> default_pubkey | Some t \<Rightarrow> t)\<rparr>\<rparr>)))"
proof -
  have alloc: "create_pda_account e st (key p) (attestation_space (arg_data args)) pid (key a) =
      allocation"
    by (simp add: assms(13) attestation_space_def)
  have eq: "process_create_attestation e pid st [p, s, c, sc, a, sp] idata tok =
      (if key a \<noteq> pda then Inl InvalidAttestation
       else
         (case allocation of
            Inl x \<Rightarrow> Inl x
          | Inr st1 \<Rightarrow>
              if \<not> validate_data e (layout sch) (arg_data args) then Inl InvalidAttestationData
              else Inr (st1(key a := (st1 (key a))\<lparr>contents := AttestationAccount
                     \<lparr>nonce = arg_nonce args, att_credential = key c, att_schema = key sc,
                      data = arg_data args, signer = key s, expiry = arg_expiry args,
                      token_account =
                        (case tok of None \<Rightarrow> default_pubkey | Some t \<Rightarrow> t)\<rparr>\<rparr>))))"
    unfolding create_after_authorization [OF assms(1-8)] alloc assms(12) [symmetric]
    using assms(9-11) by simp
  show ?thesis
    unfolding eq by auto
qed

text \<open>
  On the small ledger, with data that the layout rejects: at the wrong address 20 the
  creation ends with \<open>InvalidAttestation\<close>, at the right address 19 with
  \<open>InvalidAttestationData\<close>; with a payer too poor for the rent it ends on the
  allocator's error.
\<close>

theorem create_step_order_witness:
  "process_create_attestation (env0 100) pid0 (ledger0 1000 [2] False 18 0)
     (create_accounts0 2 20) idata_bad None = Inl InvalidAttestation \<and>
   process_create_attestation (env0 100) pid0 (ledger0 1000 [2] False 18 0)
     (create_accounts0 2 19) idata_bad None = Inl InvalidAttestationData \<and>
   contents (projr (process_create_attestation (env0 100) pid0 (ledger0 1000 [2] False 18 0)
     (create_accounts0 2 19) (idata0 9 0) (Some 55)) 19) =
     AttestationAccount \<lparr>nonce = 9, att_credential = 3, att_schema = 4,
       data = [1, 0, 0, 0, 97, 30], signer = 2, expiry = 0, token_account = 55\<rparr>"
proof -
  let ?bad = "\<lparr>arg_nonce = 9, arg_data = [1, 2, 3, 4, 5, 6], arg_expiry = 0\<rparr>"
  let ?good = "\<lparr>arg_nonce = 9, arg_data = [1, 0, 0, 0, 97, 30], arg_expiry = 0\<rparr>"
  let ?st = "ledger0 1000 [2] False 18 0"
  let ?alloc = "allocate0 ?st 1 179 pid0"
  have bad: "process_instruction_data (env0 100) idata_bad = Inr ?bad"
    and good: "process_instruction_data (env0 100) (idata0 9 0) = Inr ?good"
    by (simp_all add: scenario_defs)
  have h: "is_signer (info 2 True False)"
    "key (info 0 False False) = system_program_id (env0 100)"
    "owner (?st (key (info 3 False False))) = pid0"
    "owner (?st (key (info 4 False False))) = pid0"
    "contents (?st (key (info 3 False False))) = CredentialAccount (credential0 [2])"
    "key (info 2 True False) \<in> set (authorized_signers (credential0 [2]))"
    "contents (?st (key (info 4 False False))) = SchemaAccount (schema0 False)"
    "\<not> is_paused (schema0 False)"
    "schema_credential (schema0 False) = key (info 3 False False)"
    by (simp_all add: scenario_defs)
  have ex: "\<not> expiry_rejected (arg_expiry ?bad) (unix_timestamp (env0 100))"
    "\<not> expiry_rejected (arg_expiry ?good) (unix_timestamp (env0 100))"
    by (simp_all add: expiry_rejected_def)
  have pda: "19 = fst (find_program_address (env0 100)
       [SeedBytes ATTESTATION_SEED, SeedKey (key (info 3 False False)),
        SeedKey (key (info 4 False False)), SeedKey (arg_nonce ?bad)] pid0)"
    "19 = fst (find_program_address (env0 100)
       [SeedBytes ATTESTATION_SEED, SeedKey (key (info 3 False False)),
        SeedKey (key (info 4 False False)), SeedKey (arg_nonce ?good)] pid0)"
    by (simp_all add: scenario_defs)
  have al: "?alloc 20 = create_pda_account (env0 100) ?st (key (info 1 True True))
        (1 + 32 + 32 + 32 + (4 + length (arg_data ?bad)) + 32 + 8 + 32) pid0
        (key (info 20 False True))"
    "?alloc 19 = create_pda_account (env0 100) ?st (key (info 1 True True))
        (1 + 32 + 32 + 32 + (4 + length (arg_data ?bad)) + 32 + 8 + 32) pid0
        (key (info 19 False True))"
    "?alloc 19 = create_pda_account (env0 100) ?st (key (info 1 True True))
        (1 + 32 + 32 + 32 + (4 + length (arg_data ?good)) + 32 + 8 + 32) pid0
        (key (info 19 False True))"
    by (simp_all add: env0_def info_def)
  have allocated: "?alloc 19 = Inr (projr (?alloc 19))"
    by (simp add: scenario_defs)
  have codec: "\<not> validate_data (env0 100) (layout (schema0 False)) (arg_data ?bad)"
    "validate_data (env0 100) (layout (schema0 False)) (arg_data ?good)"
    by (simp_all add: scenario_defs)
  have k: "key (info 20 False True) \<noteq> 19" "key (info 19 False True) = 19"
    by (simp_all add: info_def)
  from create_step_order [OF bad h ex(1) pda(1) al(1), where tok = None] k(1)
  have one: "process_create_attestation (env0 100) pid0 ?st (create_accounts0 2 20)
      idata_bad None = Inl InvalidAttestation"
    by (simp add: create_accounts0_def)
  from create_step_order [OF bad h ex(1) pda(1) al(2),
      where allocated = "projr (?alloc 19)" and tok = None]
    k(2) allocated codec(1)
  have two: "process_create_attestation (env0 100) pid0 ?st (create_accounts0 2 19)
      idata_bad None = Inl InvalidAttestationData"
    by (simp add: create_accounts0_def)
  from create_step_order [OF good h ex(2) pda(2) al(3),
      where allocated = "projr (?alloc 19)" and tok = "Some 55"]
    k(2) allocated codec(2)
  have "process_create_attestation (env0 100) pid0 ?st (create_accounts0 2 19)
      (idata0 9 0) (Some 55) =
      Inr ((projr (?alloc 19))(key (info 19 False True) :=
        (projr (?alloc 19) (key (info 19 False True)))\<lparr>contents := AttestationAccount
           \<lparr>nonce = 9, att_credential = key (info 3 False False),
            att_schema = key (info 4 False False), data = [1, 0, 0, 0, 97, 30],
            signer = key (info 2 True False), expiry = 0, token_account = 55\<rparr>\<rparr>))"
    by (simp add: create_accounts0_def)
  then have three: "contents (projr (process_create_attestation (env0 100) pid0 ?st
     (create_accounts0 2 19) (idata0 9 0) (Some 55)) 19) =
     AttestationAccount \<lparr>nonce = 9, att_credential = 3, att_schema = 4,
       data = [1, 0, 0, 0, 97, 30], signer = 2, expiry = 0, token_account = 55\<rparr>"
    by (simp add: info_def)
  from one two three show ?thesis by blast
qed

text \<open>
  The claim as stated puts the validation of the data before the allocation. Here the
  data do not conform to the layout and the payer cannot pay the rent: the creation
  ends on the allocator's error, not on \<open>InvalidAttestationData\<close>, so the allocator
  ran first.
\<close>

theorem create_allocation_first_counterexample:
  "process_instruction_data (env0 100) idata_bad =
     Inr \<lparr>arg_nonce = 9, arg_data = [1, 2, 3, 4, 5, 6], arg_expiry = 0\<rparr> \<and>
   \<not> validate_data (env0 100) (layout (schema0 False)) [1, 2, 3, 4, 5, 6] \<and>
   process_create_attestation (env0 100) pid0 (ledger0 5 [2] False 18 0)
     (create_accounts0 2 19) idata_bad None = Inl (HostError 1)"
  by (simp add: scenario_defs processor_defs)

subsection \<open>Closing: the balance\<close>

text \<open>
  C2 (as amended). After a successful CloseAttestation the attestation account's
  balance is zero and the account is closed, and, when the payer account is not the
  attestation account itself, the payer's balance has increased by exactly the
  attestation's balance before the close. If adding the attestation's balance to the
  payer's balance would overflow 64 bits, the operation fails and returns no new
  state.
\<close>

theorem close_transfers_balance:
  "(process_close_attestation e pid st [p, s, c, a, ev, sp, ap] tok = Inr (st', evs) \<longrightarrow>
      lamports (st' (key a)) = 0 \<and> contents (st' (key a)) = NoEntity [] \<and>
      (key p \<noteq> key a \<longrightarrow>
         unat (lamports (st' (key p))) =
           unat (lamports (st (key p))) + unat (lamports (st (key a))))) \<and>
   (2 ^ 64 \<le> unat (lamports (st (key p))) + unat (lamports (st (key a))) \<longrightarrow>
      isl (process_close_attestation e pid st [p, s, c, a, ev, sp, ap] tok))"
proof (intro conjI impI)
  assume "process_close_attestation e pid st [p, s, c, a, ev, sp, ap] tok = Inr (st', evs)"
  then have t: "transfer_and_close st (key p) (key a) = Inr st'"
    by (auto simp: close_Inr_iff)
  from transfer_and_close_balances [OF t]
  show "lamports (st' (key a)) = 0" and "contents (st' (key a)) = NoEntity []"
    by simp_all
  assume "key p \<noteq> key a"
  with transfer_and_close_balances(3) [OF t]
  show "unat (lamports (st' (key p))) =
      unat (lamports (st (key p))) + unat (lamports (st (key a)))"
    by simp
next
  assume "2 ^ 64 \<le> unat (lamports (st (key p))) + unat (lamports (st (key a)))"
  then have "transfer_and_close st (key p) (key a) = Inl Panicked"
    by (rule transfer_and_close_overflow)
  then show "isl (process_close_attestation e pid st [p, s, c, a, ev, sp, ap] tok)"
    by (auto simp: isl_iff_not_Inr close_Inr_iff)
qed

text \<open>
  On the small ledger: the payer at 1 holds 1000 lamports and the attestation at 18
  holds 70; after the close the payer holds 1070 and the attestation nothing. With a
  payer that holds \<open>2^64 - 1\<close> lamports the close fails.
\<close>

theorem close_transfers_balance_witness:
  "unat (lamports (fst (projr (process_close_attestation (env0 1000) pid0
       (ledger0 1000 [2] False 18 0) (close_accounts0 1 2 18) None)) 1)) = 1070 \<and>
   lamports (fst (projr (process_close_attestation (env0 1000) pid0
       (ledger0 1000 [2] False 18 0) (close_accounts0 1 2 18) None)) 18) = 0 \<and>
   isl (process_close_attestation (env0 1000) pid0
       (ledger0 18446744073709551615 [2] False 18 0) (close_accounts0 1 2 18) None)"
proof -
  let ?st = "ledger0 1000 [2] False 18 0"
  let ?r = "process_close_attestation (env0 1000) pid0 ?st (close_accounts0 1 2 18) None"
  have ok: "process_close_attestation (env0 1000) pid0 ?st
      [info 1 True True, info 2 True False, info 3 False False, info 18 False True,
       info 6 False False, info 0 False False, info 100 False False] None =
      Inr (fst (projr ?r), snd (projr ?r))"
    by (simp add: scenario_defs processor_defs)
  have distinct: "key (info 1 True True) \<noteq> key (info 18 False True)"
    by (simp add: info_def)
  have over: "2 ^ 64 \<le> unat (lamports (ledger0 18446744073709551615 [2] False 18 0
        (key (info 1 True True)))) +
      unat (lamports (ledger0 18446744073709551615 [2] False 18 0 (key (info 18 False True))))"
    by (simp add: scenario_defs)
  from close_transfers_balance [where e = "env0 1000" and pid = pid0 and st = ?st
      and p = "info 1 True True" and s = "info 2 True False" and c = "info 3 False False"
      and a = "info 18 False True" and ev = "info 6 False False"
      and sp = "info 0 False False" and ap = "info 100 False False" and tok = None
      and st' = "fst (projr ?r)" and evs = "snd (projr ?r)"] ok distinct
  have "lamports (fst (projr ?r) 18) = 0 \<and>
        unat (lamports (fst (projr ?r) 1)) = unat (lamports (?st 1)) + unat (lamports (?st 18))"
    by (simp add: info_def)
  moreover have "unat (lamports (?st 1)) + unat (lamports (?st 18)) = 1070"
    by (simp add: scenario_defs)
  moreover from close_transfers_balance [where e = "env0 1000" and pid = pid0
      and st = "ledger0 18446744073709551615 [2] False 18 0"
      and p = "info 1 True True" and s = "info 2 True False" and c = "info 3 False False"
      and a = "info 18 False True" and ev = "info 6 False False"
      and sp = "info 0 False False" and ap = "info 100 False False" and tok = None] over
  have "isl (process_close_attestation (env0 1000) pid0
       (ledger0 18446744073709551615 [2] False 18 0) (close_accounts0 1 2 18) None)"
    by (simp add: close_accounts0_def)
  ultimately show ?thesis by simp
qed

text \<open>
  The claim as stated fails when the payer reference names the attestation account
  itself: the close succeeds, and the account that was to receive the 70 lamports
  ends with none.
\<close>

theorem close_balance_counterexample:
  "\<not> isl (process_close_attestation (env0 1000) pid0
       (ledger0 1000 [2] False 18 0) (close_accounts0 18 2 18) None) \<and>
   lamports (ledger0 1000 [2] False 18 0 18) = 70 \<and>
   lamports (fst (projr (process_close_attestation (env0 1000) pid0
       (ledger0 1000 [2] False 18 0) (close_accounts0 18 2 18) None)) 18) = 0"
  by (simp add: scenario_defs processor_defs)

subsection \<open>Closing: the token account\<close>

text \<open>
  C3 (as amended). A close succeeds only when the supplied token reference equals the
  stored one, or none is supplied and the stored one is the default key. So for a
  tokenized attestation a different reference fails and no reference fails; for a
  non-tokenized attestation every supplied reference other than the default key
  fails. The token check itself passes for the stored reference, and for no reference
  when the stored one is the default key.
\<close>

theorem close_token_consistency:
  assumes "contents (st (key a)) = AttestationAccount at"
  shows "(\<not> isl (process_close_attestation e pid st [p, s, c, a, ev, sp, ap] tok) \<longrightarrow>
            tok = Some (token_account at) \<or>
            (tok = None \<and> token_account at = default_pubkey)) \<and>
         (token_account at \<noteq> default_pubkey \<longrightarrow>
            isl (process_close_attestation e pid st [p, s, c, a, ev, sp, ap] None) \<and>
            (\<forall>t. t \<noteq> token_account at \<longrightarrow>
               isl (process_close_attestation e pid st [p, s, c, a, ev, sp, ap] (Some t)))) \<and>
         (token_account at = default_pubkey \<longrightarrow>
            (\<forall>t. t \<noteq> default_pubkey \<longrightarrow>
               isl (process_close_attestation e pid st [p, s, c, a, ev, sp, ap] (Some t)))) \<and>
         check_token_account (Some (token_account at)) at = Inr () \<and>
         (token_account at = default_pubkey \<longrightarrow> check_token_account None at = Inr ())"
proof -
  have only: "tok' = Some (token_account at) \<or> (tok' = None \<and> token_account at = default_pubkey)"
    if "\<not> isl (process_close_attestation e pid st [p, s, c, a, ev, sp, ap] tok')" for tok'
    using that assms by (auto simp: isl_iff_not_Inr close_Inr_iff check_token_account_Inr)
  show ?thesis
    using only [of tok] only [of None] only
    by (auto simp: check_token_account_Inr)
qed

text \<open>
  On the small ledger, with the attestation bound to the token account 55: the close
  with reference 55 succeeds, with reference 56 and with none it fails; and the
  attestation that is not tokenized is closed with no reference and not with 56.
\<close>

theorem close_token_consistency_witness:
  "\<not> isl (process_close_attestation (env0 1000) pid0 (ledger0 1000 [2] False 18 55)
       (close_accounts0 1 2 18) (Some 55)) \<and>
   isl (process_close_attestation (env0 1000) pid0 (ledger0 1000 [2] False 18 55)
       (close_accounts0 1 2 18) (Some 56)) \<and>
   isl (process_close_attestation (env0 1000) pid0 (ledger0 1000 [2] False 18 55)
       (close_accounts0 1 2 18) None) \<and>
   \<not> isl (process_close_attestation (env0 1000) pid0 (ledger0 1000 [2] False 18 0)
       (close_accounts0 1 2 18) None) \<and>
   isl (process_close_attestation (env0 1000) pid0 (ledger0 1000 [2] False 18 0)
       (close_accounts0 1 2 18) (Some 56))"
proof -
  have tokenized: "contents (ledger0 1000 [2] False 18 55 (key (info 18 False True))) =
      AttestationAccount (attestation0 55)"
    by (simp add: scenario_defs)
  have plain: "contents (ledger0 1000 [2] False 18 0 (key (info 18 False True))) =
      AttestationAccount (attestation0 0)"
    by (simp add: scenario_defs)
  have t55: "token_account (attestation0 55) \<noteq> default_pubkey" "56 \<noteq> token_account (attestation0 55)"
    and t0: "token_account (attestation0 0) = default_pubkey" "(56::pubkey) \<noteq> default_pubkey"
    by (simp_all add: attestation0_def default_pubkey_def)
  have ok55: "\<not> isl (process_close_attestation (env0 1000) pid0 (ledger0 1000 [2] False 18 55)
       (close_accounts0 1 2 18) (Some 55))"
    and ok0: "\<not> isl (process_close_attestation (env0 1000) pid0 (ledger0 1000 [2] False 18 0)
       (close_accounts0 1 2 18) None)"
    by (simp_all add: scenario_defs processor_defs)
  from close_token_consistency [where st = "ledger0 1000 [2] False 18 55"
      and a = "info 18 False True" and at = "attestation0 55" and e = "env0 1000"
      and pid = pid0 and p = "info 1 True True" and s = "info 2 True False"
      and c = "info 3 False False" and ev = "info 6 False False"
      and sp = "info 0 False False" and ap = "info 100 False False" and tok = "Some 55",
      OF tokenized] t55
  have a: "isl (process_close_attestation (env0 1000) pid0 (ledger0 1000 [2] False 18 55)
       (close_accounts0 1 2 18) None) \<and>
     isl (process_close_attestation (env0 1000) pid0 (ledger0 1000 [2] False 18 55)
       (close_accounts0 1 2 18) (Some 56))"
    by (simp add: close_accounts0_def)
  from close_token_consistency [where st = "ledger0 1000 [2] False 18 0"
      and a = "info 18 False True" and at = "attestation0 0" and e = "env0 1000"
      and pid = pid0 and p = "info 1 True True" and s = "info 2 True False"
      and c = "info 3 False False" and ev = "info 6 False False"
      and sp = "info 0 False False" and ap = "info 100 False False" and tok = None,
      OF plain] t0
  have b: "isl (process_close_attestation (env0 1000) pid0 (ledger0 1000 [2] False 18 0)
       (close_accounts0 1 2 18) (Some 56))"
    by (simp add: close_accounts0_def)
  from a b ok55 ok0 show ?thesis by blast
qed

text \<open>
  The claim as stated fails for the reference that is the default key: supplied for
  an attestation that is not tokenized, it equals the stored reference and the close
  succeeds.
\<close>

theorem close_default_token_counterexample:
  "token_account (attestation0 0) = default_pubkey \<and>
   contents (ledger0 1000 [2] False 18 0 18) = AttestationAccount (attestation0 0) \<and>
   \<not> isl (process_close_attestation (env0 1000) pid0 (ledger0 1000 [2] False 18 0)
       (close_accounts0 1 2 18) (Some 0))"
  by (simp add: scenario_defs processor_defs)

subsection \<open>Closing: the event authority\<close>

text \<open>
  C8. In CloseAttestation the supplied event-authority account must be the one
  address \<open>event_authority_pda::ID\<close>. With any other address the operation is rejected
  and returns no new state, whatever the event call would have answered: the call is
  not reached. A close that succeeds has emitted the closure event of the stored
  attestation (its schema and its data), and the event call accepted it.
\<close>

theorem close_event_authority:
  "(key ev \<noteq> event_authority_id e \<longrightarrow>
      isl (process_close_attestation e pid st [p, s, c, a, ev, sp, ap] tok) \<and>
      process_close_attestation (e\<lparr>invoke_signed := f\<rparr>) pid st [p, s, c, a, ev, sp, ap] tok =
        process_close_attestation e pid st [p, s, c, a, ev, sp, ap] tok) \<and>
   (process_close_attestation e pid st [p, s, c, a, ev, sp, ap] tok = Inr (st', evs) \<longrightarrow>
      key ev = event_authority_id e \<and>
      (\<exists>at. contents (st (key a)) = AttestationAccount at \<and>
            evs = [CloseAttestationEvent (att_schema at) (data at)] \<and>
            invoke_signed e (CloseAttestationEvent (att_schema at) (data at)) = Inr ()))"
proof (intro conjI impI)
  assume wrong: "key ev \<noteq> event_authority_id e"
  then show "isl (process_close_attestation e pid st [p, s, c, a, ev, sp, ap] tok)"
    by (auto simp: isl_iff_not_Inr close_Inr_iff)
  from wrong show "process_close_attestation (e\<lparr>invoke_signed := f\<rparr>) pid st
        [p, s, c, a, ev, sp, ap] tok =
      process_close_attestation e pid st [p, s, c, a, ev, sp, ap] tok"
    by (simp add: process_close_attestation_def verify_system_program_def cong: if_cong)
next
  assume ok: "process_close_attestation e pid st [p, s, c, a, ev, sp, ap] tok = Inr (st', evs)"
  then show "key ev = event_authority_id e"
    by (auto simp: close_Inr_iff)
  from ok show "\<exists>at. contents (st (key a)) = AttestationAccount at \<and>
            evs = [CloseAttestationEvent (att_schema at) (data at)] \<and>
            invoke_signed e (CloseAttestationEvent (att_schema at) (data at)) = Inr ()"
    by (auto simp: close_Inr_iff)
qed

text \<open>
  On the small ledger, whose event authority is 6: a close that supplies the account
  7 instead fails, also under an event call that rejects everything; the close that
  supplies 6 emits the event with schema 4 and the data of the attestation.
\<close>

theorem close_event_authority_witness:
  "isl (process_close_attestation (env0 1000) pid0 (ledger0 1000 [2] False 18 0)
       [info 1 True True, info 2 True False, info 3 False False, info 18 False True,
        info 7 False False, info 0 False False, info 100 False False] None) \<and>
   snd (projr (process_close_attestation (env0 1000) pid0 (ledger0 1000 [2] False 18 0)
       (close_accounts0 1 2 18) None)) = [CloseAttestationEvent 4 [1, 0, 0, 0, 97, 30]]"
proof -
  let ?st = "ledger0 1000 [2] False 18 0"
  let ?r = "process_close_attestation (env0 1000) pid0 ?st (close_accounts0 1 2 18) None"
  have wrong: "key (info 7 False False) \<noteq> event_authority_id (env0 1000)"
    by (simp add: info_def env0_def)
  have ok: "process_close_attestation (env0 1000) pid0 ?st
      [info 1 True True, info 2 True False, info 3 False False, info 18 False True,
       info 6 False False, info 0 False False, info 100 False False] None =
      Inr (fst (projr ?r), snd (projr ?r))"
    by (simp add: scenario_defs processor_defs)
  have stored: "contents (?st (key (info 18 False True))) = AttestationAccount (attestation0 0)"
    by (simp add: scenario_defs)
  from close_event_authority [where e = "env0 1000" and pid = pid0 and st = ?st
      and p = "info 1 True True" and s = "info 2 True False" and c = "info 3 False False"
      and a = "info 18 False True" and ev = "info 7 False False"
      and sp = "info 0 False False" and ap = "info 100 False False" and tok = None] wrong
  have "isl (process_close_attestation (env0 1000) pid0 ?st
       [info 1 True True, info 2 True False, info 3 False False, info 18 False True,
        info 7 False False, info 0 False False, info 100 False False] None)"
    by blast
  moreover
  from close_event_authority [where e = "env0 1000" and pid = pid0 and st = ?st
      and p = "info 1 True True" and s = "info 2 True False" and c = "info 3 False False"
      and a = "info 18 False True" and ev = "info 6 False False"
      and sp = "info 0 False False" and ap = "info 100 False False" and tok = None
      and st' = "fst (projr ?r)" and evs = "snd (projr ?r)"] ok stored
  have "snd (projr ?r) = [CloseAttestationEvent 4 [1, 0, 0, 0, 97, 30]]"
    by (auto simp: attestation0_def)
  ultimately show ?thesis by simp
qed


end
